theory Spec2Isabelle
  imports Main
begin

section \<open>Data model\<close>

text \<open>
  A shallow embedding of the per-account chain orchestrator
  (\<^verbatim>\<open>src/evm/chains/base.py\<close>, class \<^verbatim>\<open>Chain\<close>) and of the receive
  transaction's validation
  (\<^verbatim>\<open>src/evm/vm/forks/helios_testnet/transactions.py\<close>).
  Python integers are \<open>int\<close>, byte strings are lists of byte values, a raised
  exception is the \<open>Inl\<close> branch of a sum, and a method that mutates the chain
  object returns the chain it leaves behind together with its outcome.
\<close>

type_synonym bytes = "nat list"
type_synonym hash32 = bytes
type_synonym address = bytes
type_synonym class_name = string

text \<open>The exception classes the modelled code raises or lets through.\<close>

datatype error =
    ValidationError
  | VMNotFound
  | NotEnoughTimeBetweenBlocks
  | HeaderNotFound
  | CanonicalHeadNotFound
  | TransactionNotFound
  | InvalidQueueBlockState
  | AttributeError
  | TypeError
  | ExecutionError

record block_header =
  block_number :: int
  parent_hash :: hash32
  timestamp :: int
  gas_limit :: int
  gas_used :: int
  hash :: hash32

text \<open>
  \<open>hash\<close> and \<open>tx_hash\<close> stand for the keccak digest of the RLP encoding, which the
  source reads as the cached property \<^verbatim>\<open>.hash\<close>.
\<close>

record transaction =
  tx_nonce :: int
  tx_gas_price :: int
  tx_gas :: int
  tx_to :: address
  tx_value :: int
  tx_data :: bytes
  tx_v :: int
  tx_r :: int
  tx_s :: int
  tx_hash :: hash32

text \<open>
  \<^verbatim>\<open>HeliosTestnetReceiveTransaction.fields\<close>: sender block hash, the send
  transaction it settles, and the receiver's signature \<open>(v, r, s)\<close>.
\<close>

record receive_transaction =
  sender_block_hash :: hash32
  rtx_transaction :: transaction
  rtx_v :: int
  rtx_r :: int
  rtx_s :: int
  rtx_hash :: hash32

text \<open>
  \<^verbatim>\<open>add_transaction_to_queue_block\<close> dispatches on
  \<^verbatim>\<open>isinstance(transaction, BaseTransaction)\<close>: the argument is a send
  transaction or, otherwise, a receive transaction.
\<close>

datatype any_transaction = SendTx transaction | ReceiveTx receive_transaction

record transaction_key =
  transaction_hash :: hash32
  key_sender_block_hash :: hash32

text \<open>
  A block carries its runtime class as the list of class names of its method resolution
  order, so that \<^verbatim>\<open>isinstance\<close> is membership in that list.
\<close>

record block =
  header :: block_header
  transactions :: "transaction list"
  receive_transactions :: "receive_transaction list"
  block_mro :: "class_name list"

definition isinstance :: "block \<Rightarrow> class_name \<Rightarrow> bool" where
  "isinstance b cls = (cls \<in> set (block_mro b))"

definition number :: "block \<Rightarrow> int" where
  "number b = block_number (header b)"

definition block_hash :: "block \<Rightarrow> hash32" where
  "block_hash b = hash (header b)"

text \<open>
  Modelled from the spec: \<^verbatim>\<open>BaseBlock.is_genesis\<close> (\<^verbatim>\<open>evm.rlp.blocks\<close>) is
  not under src/. The spec numbers a chain's blocks from 0, the genesis block.
\<close>

definition is_genesis :: "block \<Rightarrow> bool" where
  "is_genesis b = (number b = 0)"

section \<open>Validation helpers\<close>

text \<open>Sequencing of two steps that may raise: the second runs only if the first returns.\<close>

definition and_then :: "error + unit \<Rightarrow> error + 'a \<Rightarrow> error + 'a" where
  "and_then a b = (case a of Inl e \<Rightarrow> Inl e | Inr _ \<Rightarrow> b)"

text \<open>
  Modelled from the spec: \<^verbatim>\<open>evm.validation\<close> and \<^verbatim>\<open>evm.constants\<close> are not
  under src/. The spec validates a timestamp "as a non-negative integer fitting a 256-bit
  range".
\<close>

definition UINT_256_MAX :: int where
  "UINT_256_MAX = 2 ^ 256 - 1"

definition validate_uint256 :: "int \<Rightarrow> error + unit" where
  "validate_uint256 v =
     (if v < 0 then Inl ValidationError
      else if v > UINT_256_MAX then Inl ValidationError
      else Inr ())"

text \<open>
  Modelled from the spec: \<^verbatim>\<open>validate_word\<close> (\<^verbatim>\<open>evm.validation\<close>) is not under
  src/, and the spec says nothing further about it. The source types a block hash as
  \<^verbatim>\<open>Hash32\<close>; the check is taken to be the length test its name states: a word is
  a string of 32 bytes.
\<close>

definition validate_word :: "bytes \<Rightarrow> error + unit" where
  "validate_word w = (if length w \<noteq> 32 then Inl ValidationError else Inr ())"

section \<open>Fork table: ruleset resolution\<close>

text \<open>
  The \<^verbatim>\<open>for ... else\<close> loop of \<^verbatim>\<open>get_vm_class_for_block_timestamp\<close>, over
  the entries in the order the loop visits them: the first entry whose start timestamp
  is at most the query wins; running off the end raises \<^verbatim>\<open>VMNotFound\<close>.
\<close>

fun scan_vm_configuration :: "(int \<times> 'vm) list \<Rightarrow> int \<Rightarrow> error + 'vm" where
  "scan_vm_configuration [] t = Inl VMNotFound"
| "scan_vm_configuration ((start_timestamp, vm) # rest) t =
     (if t \<ge> start_timestamp then Inr vm else scan_vm_configuration rest t)"

text \<open>
  \<^verbatim>\<open>Chain.get_vm_class_for_block_timestamp(timestamp=None)\<close>. The class attribute
  \<^verbatim>\<open>vm_configuration\<close> may be \<^verbatim>\<open>None\<close>; \<open>now\<close> is what
  \<^verbatim>\<open>int(time.time())\<close> reads when no timestamp is passed.
\<close>

definition get_vm_class_for_block_timestamp ::
  "(int \<times> 'vm) list option \<Rightarrow> int \<Rightarrow> int option \<Rightarrow> error + 'vm" where
  "get_vm_class_for_block_timestamp vm_config now ts =
     (let t = (case ts of None \<Rightarrow> now | Some t' \<Rightarrow> t') in
      case vm_config of
        None \<Rightarrow> Inl AttributeError
      | Some conf \<Rightarrow>
          (case validate_uint256 t of
             Inl e \<Rightarrow> Inl e
           | Inr _ \<Rightarrow> scan_vm_configuration (rev conf) t))"

section \<open>Chain storage\<close>

text \<open>
  Modelled from the spec: the chain database (\<^verbatim>\<open>evm.db.chain.ChainDB\<close>) is not
  under src/. The spec's storage contract is per-chain block storage keyed by hash, a
  reverse index from transaction hash to (block hash, index within block, send/receive
  flag), and the canonical head of the address, advanced when a block is persisted.
\<close>

record chaindb =
  db_headers :: "hash32 \<rightharpoonup> block_header"
  db_transactions :: "hash32 \<rightharpoonup> transaction list"
  db_receive_transactions :: "hash32 \<rightharpoonup> receive_transaction list"
  db_transaction_index :: "hash32 \<rightharpoonup> (hash32 \<times> nat \<times> bool)"
  db_canonical_head :: "hash32 option"

text \<open>
  \<^verbatim>\<open>chaindb.get_block_header_by_hash\<close>: the source catches
  \<^verbatim>\<open>HeaderNotFound\<close> around this lookup in \<^verbatim>\<open>get_chain_at_block_parent\<close>.
\<close>

definition db_get_block_header_by_hash :: "chaindb \<Rightarrow> hash32 \<Rightarrow> error + block_header" where
  "db_get_block_header_by_hash db h =
     (case db_headers db h of None \<Rightarrow> Inl HeaderNotFound | Some found \<Rightarrow> Inr found)"

text \<open>
  \<^verbatim>\<open>chaindb.get_canonical_head\<close>: the source catches
  \<^verbatim>\<open>CanonicalHeadNotFound\<close> around it in \<^verbatim>\<open>Chain.__init__\<close>.
\<close>

definition db_get_canonical_head :: "chaindb \<Rightarrow> error + block_header" where
  "db_get_canonical_head db =
     (case db_canonical_head db of
        None \<Rightarrow> Inl CanonicalHeadNotFound
      | Some h \<Rightarrow> db_get_block_header_by_hash db h)"

definition db_get_transaction_index :: "chaindb \<Rightarrow> hash32 \<Rightarrow> error + (hash32 \<times> nat \<times> bool)" where
  "db_get_transaction_index db h =
     (case db_transaction_index db h of None \<Rightarrow> Inl TransactionNotFound | Some k \<Rightarrow> Inr k)"

definition db_get_transaction_by_index_and_block_hash ::
  "chaindb \<Rightarrow> hash32 \<Rightarrow> nat \<Rightarrow> error + any_transaction" where
  "db_get_transaction_by_index_and_block_hash db bh i =
     (case db_transactions db bh of
        None \<Rightarrow> Inl TransactionNotFound
      | Some txs \<Rightarrow> if i < length txs then Inr (SendTx (txs ! i)) else Inl TransactionNotFound)"

definition db_get_receive_transaction_by_index_and_block_hash ::
  "chaindb \<Rightarrow> hash32 \<Rightarrow> nat \<Rightarrow> error + any_transaction" where
  "db_get_receive_transaction_by_index_and_block_hash db bh i =
     (case db_receive_transactions db bh of
        None \<Rightarrow> Inl TransactionNotFound
      | Some txs \<Rightarrow> if i < length txs then Inr (ReceiveTx (txs ! i)) else Inl TransactionNotFound)"

fun index_transactions ::
  "hash32 \<Rightarrow> bool \<Rightarrow> nat \<Rightarrow> hash32 list \<Rightarrow> (hash32 \<rightharpoonup> (hash32 \<times> nat \<times> bool))
     \<Rightarrow> (hash32 \<rightharpoonup> (hash32 \<times> nat \<times> bool))" where
  "index_transactions bh is_receive i [] m = m"
| "index_transactions bh is_receive i (h # hs) m =
     index_transactions bh is_receive (Suc i) hs (m(h \<mapsto> (bh, i, is_receive)))"

definition persist_block :: "chaindb \<Rightarrow> block \<Rightarrow> chaindb" where
  "persist_block db b =
     (let h = block_hash b in
      db\<lparr>db_headers := (db_headers db)(h \<mapsto> header b),
         db_transactions := (db_transactions db)(h \<mapsto> transactions b),
         db_receive_transactions := (db_receive_transactions db)(h \<mapsto> receive_transactions b),
         db_transaction_index :=
           index_transactions h True 0 (map rtx_hash (receive_transactions b))
             (index_transactions h False 0 (map tx_hash (transactions b))
                (db_transaction_index db)),
         db_canonical_head := Some h\<rparr>)"

section \<open>Rulesets (VM classes)\<close>

text \<open>
  The VM classes are not under src/ (only \<^verbatim>\<open>PhotonVM\<close>'s class body is, which binds
  these members to functions defined elsewhere). A ruleset is therefore a record of the
  members the chain calls, each a parameter: the queue block class, the time check
  between a block and its parent, the executor, the header builder, the block a VM
  instance holds for its header, and the receivable index of its account database.
  A VM instance is a ruleset together with the header it was built for; it reads and
  writes the chain database of the chain that built it.
\<close>

type_synonym header_params = "(string \<times> int) list"

record vm_class =
  fork :: string
  queue_block_class :: class_name
  check_time_since_parent_block :: "chaindb \<Rightarrow> block_header \<Rightarrow> block \<Rightarrow> error + bool"
  vm_import_block :: "chaindb \<Rightarrow> block_header \<Rightarrow> block \<Rightarrow> chaindb \<times> (error + block)"
  vm_create_header_from_parent :: "block_header \<Rightarrow> header_params \<Rightarrow> error + block_header"
  vm_block :: "chaindb \<Rightarrow> block_header \<Rightarrow> block"
  account_db_get_receivable_transactions ::
    "chaindb \<Rightarrow> block_header \<Rightarrow> address \<Rightarrow> transaction_key list"

text \<open>
  Module-level helpers of \<^verbatim>\<open>evm.utils\<close> that are not under src/, taken as
  parameters: the elastic gas-limit window around a parent header (the spec leaves its
  formula to configuration) and the structural comparison of an executed block with the
  block that was submitted.
\<close>

record evm_utils =
  compute_gas_limit_bounds :: "block_header \<Rightarrow> int \<times> int"
  ensure_imported_block_unchanged :: "block \<Rightarrow> block \<Rightarrow> error + unit"

section \<open>The chain orchestrator\<close>

record chain =
  vm_configuration :: "(int \<times> vm_class) list option"
  chain_header :: block_header
  queue_block :: "block option"
  chaindb :: chaindb
  wallet_address :: address
  network_id :: int

text \<open>
  \<^verbatim>\<open>Chain.get_vm(header=None)\<close>: the ruleset is resolved by the header's timestamp,
  the tip header's when none is given. The timestamp is passed to the resolver, which
  therefore does not read the clock; its clock argument is immaterial here.
\<close>

definition get_vm :: "chain \<Rightarrow> block_header option \<Rightarrow> error + (vm_class \<times> block_header)" where
  "get_vm c hdr =
     (let h = (case hdr of None \<Rightarrow> chain_header c | Some h' \<Rightarrow> h') in
      case get_vm_class_for_block_timestamp (vm_configuration c) 0 (Some (timestamp h)) of
        Inl e \<Rightarrow> Inl e
      | Inr cls \<Rightarrow> Inr (cls, h))"

text \<open>
  \<^verbatim>\<open>Chain.create_header_from_parent\<close>: the resolver is called with no timestamp,
  so it reads the clock.
\<close>

definition create_header_from_parent ::
  "chain \<Rightarrow> int \<Rightarrow> block_header \<Rightarrow> header_params \<Rightarrow> error + block_header" where
  "create_header_from_parent c now parent_header params =
     (case get_vm_class_for_block_timestamp (vm_configuration c) now None of
        Inl e \<Rightarrow> Inl e
      | Inr cls \<Rightarrow> vm_create_header_from_parent cls parent_header params)"

definition get_block_header_by_hash :: "chain \<Rightarrow> hash32 \<Rightarrow> error + block_header" where
  "get_block_header_by_hash c h =
     (case validate_word h of
        Inl e \<Rightarrow> Inl e
      | Inr _ \<Rightarrow> db_get_block_header_by_hash (chaindb c) h)"

definition get_canonical_head :: "chain \<Rightarrow> error + block_header" where
  "get_canonical_head c = db_get_canonical_head (chaindb c)"

text \<open>\<^verbatim>\<open>Chain.get_block\<close>: the block of the VM instance built for the tip header.\<close>

definition get_block :: "chain \<Rightarrow> error + block" where
  "get_block c =
     (case get_vm c None of
        Inl e \<Rightarrow> Inl e
      | Inr (cls, h) \<Rightarrow> Inr (vm_block cls (chaindb c) h))"

subsection \<open>Queue block staging\<close>

text \<open>
  Modelled from the spec: \<^verbatim>\<open>validate_is_queue_block\<close> (\<^verbatim>\<open>evm.validation\<close>)
  and the queue block's \<^verbatim>\<open>contains_transaction\<close>, \<^verbatim>\<open>add_transaction\<close>,
  \<^verbatim>\<open>contains_receive_transaction\<close> and \<^verbatim>\<open>add_receive_transaction\<close>
  (\<^verbatim>\<open>evm.rlp.blocks\<close>) are not under src/. The spec rejects, with
  \<^verbatim>\<open>InvalidQueueBlockState\<close>, a queue block that is not a mutable staging block; a
  send transaction is present when one of the same hash is in the block's send list,
  a receive transaction likewise by its own identity; adding appends to the list.
\<close>

definition validate_is_queue_block :: "block \<Rightarrow> error + unit" where
  "validate_is_queue_block b =
     (if \<not> isinstance b ''BaseQueueBlock'' then Inl InvalidQueueBlockState else Inr ())"

definition contains_transaction :: "block \<Rightarrow> transaction \<Rightarrow> bool" where
  "contains_transaction b t = (tx_hash t \<in> set (map tx_hash (transactions b)))"

definition add_transaction :: "block \<Rightarrow> transaction \<Rightarrow> block" where
  "add_transaction b t = b\<lparr>transactions := transactions b @ [t]\<rparr>"

definition contains_receive_transaction :: "block \<Rightarrow> receive_transaction \<Rightarrow> bool" where
  "contains_receive_transaction b r = (rtx_hash r \<in> set (map rtx_hash (receive_transactions b)))"

definition add_receive_transaction :: "block \<Rightarrow> receive_transaction \<Rightarrow> block" where
  "add_receive_transaction b r = b\<lparr>receive_transactions := receive_transactions b @ [r]\<rparr>"

text \<open>
  \<^verbatim>\<open>Chain.add_transaction_to_queue_block\<close>. The lazily created queue block stays on
  the chain object also when a later line raises.
\<close>

definition add_transaction_to_queue_block :: "chain \<Rightarrow> any_transaction \<Rightarrow> chain \<times> (error + unit)" where
  "add_transaction_to_queue_block c tx =
     (case (case queue_block c of None \<Rightarrow> get_block c | Some b \<Rightarrow> Inr b) of
        Inl e \<Rightarrow> (c, Inl e)
      | Inr qb \<Rightarrow>
          (let c1 = c\<lparr>queue_block := Some qb\<rparr> in
           case validate_is_queue_block qb of
             Inl e \<Rightarrow> (c1, Inl e)
           | Inr _ \<Rightarrow>
               (case tx of
                  SendTx t \<Rightarrow>
                    if \<not> contains_transaction qb t
                    then (c1\<lparr>queue_block := Some (add_transaction qb t)\<rparr>, Inr ())
                    else (c1, Inr ())
                | ReceiveTx r \<Rightarrow>
                    if \<not> contains_receive_transaction qb r
                    then (c1\<lparr>queue_block := Some (add_receive_transaction qb r)\<rparr>, Inr ())
                    else (c1, Inr ()))))"

text \<open>
  \<^verbatim>\<open>Chain.add_transactions_to_queue_block\<close>: one transaction, or a list staged
  element by element; an exception ends the loop.
\<close>

datatype transactions_argument = OneTransaction any_transaction | TransactionList "any_transaction list"

fun add_each_to_queue_block :: "chain \<Rightarrow> any_transaction list \<Rightarrow> chain \<times> (error + unit)" where
  "add_each_to_queue_block c [] = (c, Inr ())"
| "add_each_to_queue_block c (tx # txs) =
     (case add_transaction_to_queue_block c tx of
        (c1, Inl e) \<Rightarrow> (c1, Inl e)
      | (c1, Inr _) \<Rightarrow> add_each_to_queue_block c1 txs)"

definition add_transactions_to_queue_block ::
  "chain \<Rightarrow> transactions_argument \<Rightarrow> chain \<times> (error + unit)" where
  "add_transactions_to_queue_block c arg =
     (case arg of
        OneTransaction tx \<Rightarrow> add_transaction_to_queue_block c tx
      | TransactionList txs \<Rightarrow> add_each_to_queue_block c txs)"

subsection \<open>Transaction lookup and receivable discovery\<close>

definition any_hash :: "any_transaction \<Rightarrow> hash32" where
  "any_hash tx = (case tx of SendTx t \<Rightarrow> tx_hash t | ReceiveTx r \<Rightarrow> rtx_hash r)"

text \<open>
  \<^verbatim>\<open>Chain.get_canonical_transaction\<close>. The transaction class that the source hands
  to the database for decoding is not modelled: the database holds decoded transactions.
\<close>

definition get_canonical_transaction :: "chain \<Rightarrow> hash32 \<Rightarrow> error + any_transaction" where
  "get_canonical_transaction c h =
     (case db_get_transaction_index (chaindb c) h of
        Inl e \<Rightarrow> Inl e
      | Inr (bh, index, is_receive) \<Rightarrow>
          (case get_block_header_by_hash c bh of
             Inl e \<Rightarrow> Inl e
           | Inr block_header \<Rightarrow>
               (case get_vm_class_for_block_timestamp (vm_configuration c) 0
                       (Some (timestamp block_header)) of
                  Inl e \<Rightarrow> Inl e
                | Inr VM \<Rightarrow>
                    (case (if is_receive = False
                           then db_get_transaction_by_index_and_block_hash (chaindb c) bh index
                           else db_get_receive_transaction_by_index_and_block_hash (chaindb c) bh index) of
                       Inl e \<Rightarrow> Inl e
                     | Inr tx \<Rightarrow>
                         if any_hash tx = h then Inr tx else Inl TransactionNotFound))))"

text \<open>
  What \<^verbatim>\<open>get_receivable_transactions\<close> returns: the pair \<^verbatim>\<open>(False, False)\<close>, or
  a pair of lists.
\<close>

datatype receivable_result =
    FalseFalse
  | Receivable "any_transaction list" "transaction_key list"

text \<open>The \<^verbatim>\<open>for tx_key in tx_keys\<close> loop: the first failing lookup raises.\<close>

fun resolve_receivable :: "chain \<Rightarrow> transaction_key list \<Rightarrow> error + any_transaction list" where
  "resolve_receivable c [] = Inr []"
| "resolve_receivable c (tx_key # tx_keys) =
     (case get_canonical_transaction c (transaction_hash tx_key) of
        Inl e \<Rightarrow> Inl e
      | Inr tx \<Rightarrow>
          (case resolve_receivable c tx_keys of
             Inl e \<Rightarrow> Inl e
           | Inr txs \<Rightarrow> Inr (tx # txs)))"

definition get_receivable_transactions :: "chain \<Rightarrow> address \<Rightarrow> error + receivable_result" where
  "get_receivable_transactions c addr =
     (case get_vm c None of
        Inl e \<Rightarrow> Inl e
      | Inr (cls, h) \<Rightarrow>
          (let tx_keys = account_db_get_receivable_transactions cls (chaindb c) h addr in
           if length tx_keys = 0 then Inr FalseFalse
           else (case resolve_receivable c tx_keys of
                   Inl e \<Rightarrow> Inl e
                 | Inr txs \<Rightarrow> Inr (Receivable txs tx_keys))))"

subsection \<open>Validation and import\<close>

definition validate_gaslimit :: "evm_utils \<Rightarrow> chain \<Rightarrow> block_header \<Rightarrow> error + unit" where
  "validate_gaslimit u c h =
     (case get_block_header_by_hash c (parent_hash h) of
        Inl e \<Rightarrow> Inl e
      | Inr parent_header \<Rightarrow>
          (case compute_gas_limit_bounds u parent_header of
             (low_bound, high_bound) \<Rightarrow>
               if gas_limit h < low_bound then Inl ValidationError
               else if gas_limit h > high_bound then Inl ValidationError
               else Inr ()))"

definition validate_block :: "evm_utils \<Rightarrow> chain \<Rightarrow> block \<Rightarrow> error + unit" where
  "validate_block u c b = validate_gaslimit u c (header b)"

text \<open>
  \<^verbatim>\<open>Chain.import_block\<close>. The executor may write to the chain database before it
  returns or raises; the chain object keeps whatever was written when a later step
  raises. \<open>now\<close> is the clock that \<^verbatim>\<open>create_header_from_parent\<close> reads.
\<close>

definition import_block ::
  "evm_utils \<Rightarrow> chain \<Rightarrow> int \<Rightarrow> block \<Rightarrow> bool \<Rightarrow> chain \<times> (error + block)" where
  "import_block u c now b perform_validation =
     (case (if \<not> is_genesis b
            then (case get_vm c None of
                    Inl e \<Rightarrow> Inl e
                  | Inr (cls, h) \<Rightarrow>
                      (case check_time_since_parent_block cls (chaindb c) h b of
                         Inl e \<Rightarrow> Inl e
                       | Inr enough \<Rightarrow>
                           if \<not> enough then Inl NotEnoughTimeBetweenBlocks else Inr ()))
            else Inr ()) of
        Inl e \<Rightarrow> (c, Inl e)
      | Inr _ \<Rightarrow>
          if number b \<noteq> block_number (chain_header c) then (c, Inl ValidationError)
          else
            (case get_vm c (Some (header b)) of
               Inl e \<Rightarrow> (c, Inl e)
             | Inr (cls, h) \<Rightarrow>
                 (case vm_import_block cls (chaindb c) h b of
                    (db1, Inl e) \<Rightarrow> (c\<lparr>chaindb := db1\<rparr>, Inl e)
                  | (db1, Inr imported_block) \<Rightarrow>
                      (let c1 = c\<lparr>chaindb := db1\<rparr> in
                       case get_vm c1 None of
                         Inl e \<Rightarrow> (c1, Inl e)
                       | Inr (tip_cls, tip_h) \<Rightarrow>
                           (let perform_validation1 =
                                  (if isinstance b (queue_block_class tip_cls) then False
                                   else perform_validation) in
                            case (if perform_validation1
                                  then and_then (ensure_imported_block_unchanged u imported_block b)
                                         (validate_block u c1 imported_block)
                                  else Inr ()) of
                              Inl e \<Rightarrow> (c1, Inl e)
                            | Inr _ \<Rightarrow>
                                (let c2 = c1\<lparr>chaindb := persist_block (chaindb c1) imported_block\<rparr> in
                                 case get_canonical_head c2 of
                                   Inl e \<Rightarrow> (c2, Inl e)
                                 | Inr head \<Rightarrow>
                                     (case create_header_from_parent c2 now head [] of
                                        Inl e \<Rightarrow> (c2, Inl e)
                                      | Inr new_header \<Rightarrow>
                                          (c2\<lparr>chain_header := new_header, queue_block := None\<rparr>,
                                           Inr imported_block))))))))"

section \<open>Receive transaction validation\<close>












section \<open>Contract of a ruleset's header builder\<close>

text \<open>
  Modelled from the spec: the header builders of the VM classes
  (\<^verbatim>\<open>create_header_from_parent\<close> of each fork) are not under src/. The spec has the
  ruleset number the new header and link it to its parent: the child of a header \<open>p\<close>
  has number \<open>p.number + 1\<close> and parent hash \<open>p.hash\<close>.
\<close>

definition creates_child_header :: "vm_class \<Rightarrow> bool" where
  "creates_child_header cls =
     (\<forall>p params h. vm_create_header_from_parent cls p params = Inr h \<longrightarrow>
        block_number h = block_number p + 1 \<and> parent_hash h = hash p)"

section \<open>A small configuration\<close>

text \<open>
  Two rulesets \<open>A\<close> (from timestamp 0) and \<open>B\<close> (from timestamp 1000) that differ in the
  gas limit they give a new header, a chain whose stored head is block 0 and whose tip
  header is number 1, and blocks of the plain and of the queue block class. The header
  numbered \<open>n\<close> has hash \<open>h32 (n + 1)\<close> and parent hash \<open>h32 n\<close>; \<open>h32 0\<close> is the null
  hash that block 0 has for a parent.
\<close>

definition h32 :: "nat \<Rightarrow> hash32" where
  "h32 n = replicate 32 n"

definition example_block_mro :: "class_name list" where
  "example_block_mro = [''HeliosTestnetBlock'', ''BaseBlock'']"

definition example_queue_block_mro :: "class_name list" where
  "example_queue_block_mro =
     [''HeliosTestnetQueueBlock'', ''HeliosTestnetBlock'', ''BaseQueueBlock'', ''BaseBlock'']"

definition example_transaction :: transaction where
  "example_transaction =
     \<lparr>tx_nonce = 0, tx_gas_price = 1, tx_gas = 800000, tx_to = replicate 20 9, tx_value = 1000,
      tx_data = [], tx_v = 38, tx_r = 1, tx_s = 1, tx_hash = h32 50\<rparr>"

definition example_key :: transaction_key where
  "example_key = \<lparr>transaction_hash = h32 50, key_sender_block_hash = h32 1\<rparr>"

definition example_vm :: "string \<Rightarrow> int \<Rightarrow> bool \<Rightarrow> vm_class" where
  "example_vm name gl enough =
     \<lparr>fork = name,
      queue_block_class = ''HeliosTestnetQueueBlock'',
      check_time_since_parent_block = (\<lambda>db h b. Inr enough),
      vm_import_block = (\<lambda>db h b. (db, Inr b)),
      vm_create_header_from_parent =
        (\<lambda>p params. Inr \<lparr>block_number = block_number p + 1, parent_hash = hash p,
                           timestamp = timestamp p + 10, gas_limit = gl, gas_used = 0,
                           hash = h32 (nat (block_number p) + 2)\<rparr>),
      vm_block = (\<lambda>db h. \<lparr>header = h, transactions = [], receive_transactions = [],
                            block_mro = example_queue_block_mro\<rparr>),
      account_db_get_receivable_transactions =
        (\<lambda>db h a. if a = replicate 20 9 then [example_key] else [])\<rparr>"

definition example_header :: "int \<Rightarrow> int \<Rightarrow> int \<Rightarrow> block_header" where
  "example_header n ts gl =
     \<lparr>block_number = n, parent_hash = h32 (nat n), timestamp = ts, gas_limit = gl,
      gas_used = 0, hash = h32 (nat n + 1)\<rparr>"

definition example_db :: chaindb where
  "example_db =
     \<lparr>db_headers = [h32 1 \<mapsto> example_header 0 100 5000],
      db_transactions = [h32 1 \<mapsto> [example_transaction]],
      db_receive_transactions = [h32 1 \<mapsto> []],
      db_transaction_index = [h32 50 \<mapsto> (h32 1, 0, False)],
      db_canonical_head = Some (h32 1)\<rparr>"

definition example_chain :: "bool \<Rightarrow> chain" where
  "example_chain enough =
     \<lparr>vm_configuration = Some [(0, example_vm ''A'' 1 enough), (1000, example_vm ''B'' 2 enough)],
      chain_header = example_header 1 110 5000,
      queue_block = None,
      chaindb = example_db,
      wallet_address = replicate 20 7,
      network_id = 1\<rparr>"

definition example_utils :: evm_utils where
  "example_utils =
     \<lparr>compute_gas_limit_bounds =
        (\<lambda>p. (gas_limit p - gas_limit p div 1024, gas_limit p + gas_limit p div 1024)),
      ensure_imported_block_unchanged =
        (\<lambda>a b. if header a = header b then Inr () else Inl ValidationError)\<rparr>"

definition example_block :: "int \<Rightarrow> int \<Rightarrow> class_name list \<Rightarrow> block" where
  "example_block n gl mro =
     \<lparr>header = example_header n 120 gl, transactions = [], receive_transactions = [],
      block_mro = mro\<rparr>"



lemmas example_defs =
  example_block_def example_utils_def example_chain_def example_db_def example_header_def
  example_vm_def example_queue_block_mro_def example_block_mro_def h32_def
  example_transaction_def example_key_def

lemmas resolver_defs =
  get_vm_def get_vm_class_for_block_timestamp_def validate_uint256_def UINT_256_MAX_def

section \<open>Ruleset resolution: properties\<close>

lemma scan_vm_configuration_none:
  "(\<forall>e \<in> set conf. t < fst e) \<Longrightarrow> scan_vm_configuration conf t = Inl VMNotFound"
  by (induction conf t rule: scan_vm_configuration.induct) auto

lemma scan_vm_configuration_first:
  "\<exists>e \<in> set conf. fst e \<le> t \<Longrightarrow>
   \<exists>pre s vm post. conf = pre @ (s, vm) # post \<and> s \<le> t \<and> (\<forall>e \<in> set pre. t < fst e)
      \<and> scan_vm_configuration conf t = Inr vm"
proof (induction conf t rule: scan_vm_configuration.induct)
  case (1 t)
  then show ?case by simp
next
  case (2 start_timestamp vm rest t)
  show ?case
  proof (cases "t \<ge> start_timestamp")
    case True
    then have "(start_timestamp, vm) # rest = [] @ (start_timestamp, vm) # rest
        \<and> start_timestamp \<le> t \<and> (\<forall>e \<in> set []. t < fst e)
        \<and> scan_vm_configuration ((start_timestamp, vm) # rest) t = Inr vm"
      by simp
    then show ?thesis by blast
  next
    case False
    with 2 obtain pre s vm' post where
      "rest = pre @ (s, vm') # post" "s \<le> t" "\<forall>e \<in> set pre. t < fst e"
      "scan_vm_configuration rest t = Inr vm'"
      by auto
    with False have "(start_timestamp, vm) # rest = ((start_timestamp, vm) # pre) @ (s, vm') # post
        \<and> s \<le> t \<and> (\<forall>e \<in> set ((start_timestamp, vm) # pre). t < fst e)
        \<and> scan_vm_configuration ((start_timestamp, vm) # rest) t = Inr vm'"
      by simp
    then show ?thesis by blast
  qed
qed

lemma scan_vm_configuration_member:
  "scan_vm_configuration conf t = Inr vm \<Longrightarrow> \<exists>s. (s, vm) \<in> set conf"
  by (induction conf t rule: scan_vm_configuration.induct) (auto split: if_splits)

lemma get_vm_class_member:
  assumes "get_vm_class_for_block_timestamp vm_config now ts = Inr vm"
  shows "\<exists>conf s. vm_config = Some conf \<and> (s, vm) \<in> set conf"
proof -
  from assms obtain conf t where c: "vm_config = Some conf"
    and s: "scan_vm_configuration (rev conf) t = Inr vm"
    by (auto simp: get_vm_class_for_block_timestamp_def Let_def split: option.splits sum.splits)
  from scan_vm_configuration_member [OF s] obtain st where "(st, vm) \<in> set conf" by auto
  with c show ?thesis by blast
qed

lemma resolver_default_clock:
  "get_vm_class_for_block_timestamp vm_config now None =
   get_vm_class_for_block_timestamp vm_config now' (Some now)"
  by (simp add: get_vm_class_for_block_timestamp_def)

text \<open>
  C3. For a fork table ordered ascending by activation timestamp, as the data model has
  it, and a timestamp \<open>t\<close> that is a valid unsigned 256-bit integer, the resolver
  returns the ruleset of an entry whose activation timestamp is the greatest one at most
  \<open>t\<close>; when every entry's activation timestamp exceeds \<open>t\<close>, or the table is empty, it
  fails with \<^verbatim>\<open>VMNotFound\<close>.
\<close>

theorem get_vm_class_for_block_timestamp_greatest:
  assumes "sorted (map fst conf)" "0 \<le> t" "t \<le> UINT_256_MAX"
  shows "((\<forall>e \<in> set conf. t < fst e) \<longrightarrow>
            get_vm_class_for_block_timestamp (Some conf) now (Some t) = Inl VMNotFound) \<and>
         ((\<exists>e \<in> set conf. fst e \<le> t) \<longrightarrow>
            (\<exists>s vm. get_vm_class_for_block_timestamp (Some conf) now (Some t) = Inr vm
               \<and> (s, vm) \<in> set conf \<and> s \<le> t
               \<and> (\<forall>e \<in> set conf. fst e \<le> t \<longrightarrow> fst e \<le> s)))"
proof (intro conjI impI)
  have v: "validate_uint256 t = Inr ()"
    using assms by (simp add: validate_uint256_def)
  {
    assume "\<forall>e \<in> set conf. t < fst e"
    then have "scan_vm_configuration (rev conf) t = Inl VMNotFound"
      by (intro scan_vm_configuration_none) simp
    then show "get_vm_class_for_block_timestamp (Some conf) now (Some t) = Inl VMNotFound"
      by (simp add: get_vm_class_for_block_timestamp_def v)
  }
  {
    assume "\<exists>e \<in> set conf. fst e \<le> t"
    then have "\<exists>e \<in> set (rev conf). fst e \<le> t" by simp
    from scan_vm_configuration_first [OF this] obtain later s vm earlier where
      r: "rev conf = later @ (s, vm) # earlier" and st: "s \<le> t"
      and later: "\<forall>e \<in> set later. t < fst e"
      and res: "scan_vm_configuration (rev conf) t = Inr vm"
      by blast
    from r have "rev (rev conf) = rev (later @ (s, vm) # earlier)" by simp
    then have c: "conf = rev earlier @ (s, vm) # rev later" by simp
    with assms(1) have "\<forall>x \<in> set (map fst (rev earlier)). x \<le> s"
      by (simp add: sorted_append)
    then have earlier: "\<forall>e \<in> set earlier. fst e \<le> s" by simp
    have "\<forall>e \<in> set conf. fst e \<le> t \<longrightarrow> fst e \<le> s"
      using c later earlier by auto
    moreover have "(s, vm) \<in> set conf" using c by simp
    ultimately show "\<exists>s vm. get_vm_class_for_block_timestamp (Some conf) now (Some t) = Inr vm
               \<and> (s, vm) \<in> set conf \<and> s \<le> t
               \<and> (\<forall>e \<in> set conf. fst e \<le> t \<longrightarrow> fst e \<le> s)"
      using res st by (simp add: get_vm_class_for_block_timestamp_def v) blast
  }
qed

theorem get_vm_class_for_block_timestamp_greatest_witness:
  "get_vm_class_for_block_timestamp (Some [(10, ''A''), (1000, ''B'')]) 0 (Some 1500) = Inr ''B'' \<and>
   get_vm_class_for_block_timestamp (Some [(10, ''A''), (1000, ''B'')]) 0 (Some 999) = Inr ''A'' \<and>
   get_vm_class_for_block_timestamp (Some [(10, ''A''), (1000, ''B'')]) 0 (Some 5) = Inl VMNotFound \<and>
   get_vm_class_for_block_timestamp (Some ([] :: (int \<times> string) list)) 0 (Some 5) = Inl VMNotFound"
proof -
  have s: "sorted (map fst [(10 :: int, ''A''), (1000, ''B'')])" by simp
  have e: "sorted (map fst ([] :: (int \<times> string) list))" by simp
  have b1: "(0::int) \<le> 1500" "(1500::int) \<le> UINT_256_MAX"
    and b2: "(0::int) \<le> 999" "(999::int) \<le> UINT_256_MAX"
    and b3: "(0::int) \<le> 5" "(5::int) \<le> UINT_256_MAX"
    by (simp_all add: UINT_256_MAX_def)
  have "get_vm_class_for_block_timestamp (Some [(10, ''A''), (1000, ''B'')]) 0 (Some 1500) = Inr ''B''"
    using get_vm_class_for_block_timestamp_greatest [OF s b1, of 0] by auto
  moreover
  have "get_vm_class_for_block_timestamp (Some [(10, ''A''), (1000, ''B'')]) 0 (Some 999) = Inr ''A''"
    using get_vm_class_for_block_timestamp_greatest [OF s b2, of 0] by auto
  moreover
  have "get_vm_class_for_block_timestamp (Some [(10, ''A''), (1000, ''B'')]) 0 (Some 5) = Inl VMNotFound"
    using get_vm_class_for_block_timestamp_greatest [OF s b3, of 0] by simp
  moreover
  have "get_vm_class_for_block_timestamp (Some ([] :: (int \<times> string) list)) 0 (Some 5) = Inl VMNotFound"
    using get_vm_class_for_block_timestamp_greatest [OF e b3, of 0] by simp
  ultimately show ?thesis by blast
qed

section \<open>Block import: properties\<close>

lemma get_vm_chaindb_update:
  "get_vm (c\<lparr>chaindb := d\<rparr>) x = get_vm c x"
  by (simp add: get_vm_def split: option.splits)

lemma persist_block_head:
  "db_get_canonical_head (persist_block db b) = Inr (header b)"
  by (simp add: db_get_canonical_head_def persist_block_def db_get_block_header_by_hash_def
      Let_def)

lemma persist_block_canonical_head:
  "db_canonical_head (persist_block db b) = Some (block_hash b)"
  by (simp add: persist_block_def Let_def)

lemma import_block_outcome_shape:
  assumes "import_block u c now b pv = (c', Inr imported)"
  shows "\<exists>db1 new_header.
           c' = c\<lparr>chaindb := persist_block db1 imported, chain_header := new_header,
                  queue_block := None\<rparr> \<and>
           create_header_from_parent (c\<lparr>chaindb := persist_block db1 imported\<rparr>) now
              (header imported) [] = Inr new_header"
  using assms
  by (auto simp: import_block_def Let_def get_canonical_head_def persist_block_head
      split: sum.splits prod.splits if_splits)

text \<open>
  C1 (amended). If the block's number differs from the tip header's number, then
  \<^verbatim>\<open>import_block\<close> fails and leaves the chain object exactly as it was, tip header and
  queue block included. The error is \<^verbatim>\<open>ValidationError\<close> when the block is the
  genesis block or the time check against its parent passes; the time check comes
  first, so a block that is not the genesis block and fails it is refused with
  \<^verbatim>\<open>NotEnoughTimeBetweenBlocks\<close> instead.
\<close>

theorem import_block_number_mismatch:
  assumes "number b \<noteq> block_number (chain_header c)"
  shows "(\<exists>e. import_block u c now b pv = (c, Inl e)) \<and>
    (is_genesis b \<longrightarrow> import_block u c now b pv = (c, Inl ValidationError)) \<and>
    (\<forall>cls h. get_vm c None = Inr (cls, h) \<longrightarrow>
       (check_time_since_parent_block cls (chaindb c) h b = Inr True \<longrightarrow>
          import_block u c now b pv = (c, Inl ValidationError)) \<and>
       (\<not> is_genesis b \<and> check_time_since_parent_block cls (chaindb c) h b = Inr False \<longrightarrow>
          import_block u c now b pv = (c, Inl NotEnoughTimeBetweenBlocks)))"
  using assms
  by (auto simp: import_block_def split: sum.splits prod.splits)

theorem import_block_number_mismatch_witness:
  "import_block example_utils (example_chain True) 2000 (example_block 2 5000 example_block_mro) True
     = (example_chain True, Inl ValidationError) \<and>
   import_block example_utils (example_chain True) 2000 (example_block 0 5000 example_block_mro) True
     = (example_chain True, Inl ValidationError)"
  using
    import_block_number_mismatch [of "example_block 2 5000 example_block_mro" "example_chain True"
      example_utils 2000 True]
    import_block_number_mismatch [of "example_block 0 5000 example_block_mro" "example_chain True"
      example_utils 2000 True]
  by (simp add: example_defs number_def is_genesis_def resolver_defs)

theorem import_block_number_mismatch_counterexample:
  "number (example_block 2 5000 example_block_mro) \<noteq> block_number (chain_header (example_chain False)) \<and>
   import_block example_utils (example_chain False) 2000 (example_block 2 5000 example_block_mro) True
     = (example_chain False, Inl NotEnoughTimeBetweenBlocks) \<and>
   snd (import_block example_utils (example_chain False) 2000
          (example_block 2 5000 example_block_mro) True) \<noteq> Inl ValidationError"
  by (simp add: import_block_def example_defs number_def is_genesis_def resolver_defs)

text \<open>
  C2. If \<^verbatim>\<open>import_block\<close> succeeds and returns the imported block, and every ruleset
  of the fork table builds child headers, then afterwards the stored canonical head is
  the imported block (its hash is the head hash), the tip header is the child of the
  imported block (number one more, parent hash the imported block's hash), and the queue
  block is absent.
\<close>

theorem import_block_success:
  assumes ok: "import_block u c now b pv = (c', Inr imported)"
    and conf: "vm_configuration c = Some conf"
    and contract: "\<forall>e \<in> set conf. creates_child_header (snd e)"
  shows "db_canonical_head (chaindb c') = Some (block_hash imported) \<and>
         get_canonical_head c' = Inr (header imported) \<and>
         block_number (chain_header c') = number imported + 1 \<and>
         parent_hash (chain_header c') = block_hash imported \<and>
         queue_block c' = None"
proof -
  from import_block_outcome_shape [OF ok] obtain db1 new_header where
    c': "c' = c\<lparr>chaindb := persist_block db1 imported, chain_header := new_header,
                 queue_block := None\<rparr>"
    and mk: "create_header_from_parent (c\<lparr>chaindb := persist_block db1 imported\<rparr>) now
              (header imported) [] = Inr new_header"
    by blast
  from mk obtain cls where
    r: "get_vm_class_for_block_timestamp (vm_configuration c) now None = Inr cls"
    and b: "vm_create_header_from_parent cls (header imported) [] = Inr new_header"
    by (auto simp: create_header_from_parent_def split: sum.splits)
  from get_vm_class_member [OF r] conf obtain s where "(s, cls) \<in> set conf" by auto
  with contract have "creates_child_header cls" by auto
  with b have
    "block_number new_header = block_number (header imported) + 1 \<and>
     parent_hash new_header = hash (header imported)"
    unfolding creates_child_header_def by blast
  moreover have "get_canonical_head c' = Inr (header imported)"
    by (simp add: c' get_canonical_head_def persist_block_head)
  ultimately show ?thesis
    by (simp add: c' number_def block_hash_def persist_block_canonical_head)
qed

theorem import_block_success_witness:
  "snd (import_block example_utils (example_chain True) 2000
          (example_block 1 5000 example_block_mro) True)
     = Inr (example_block 1 5000 example_block_mro) \<and>
   db_canonical_head (chaindb (fst (import_block example_utils (example_chain True) 2000
          (example_block 1 5000 example_block_mro) True))) = Some (h32 2) \<and>
   block_number (chain_header (fst (import_block example_utils (example_chain True) 2000
          (example_block 1 5000 example_block_mro) True))) = 2 \<and>
   parent_hash (chain_header (fst (import_block example_utils (example_chain True) 2000
          (example_block 1 5000 example_block_mro) True))) = h32 2 \<and>
   queue_block (fst (import_block example_utils (example_chain True) 2000
          (example_block 1 5000 example_block_mro) True)) = None"
proof -
  let ?r = "import_block example_utils (example_chain True) 2000
              (example_block 1 5000 example_block_mro) True"
  have s: "snd ?r = Inr (example_block 1 5000 example_block_mro)"
    by (simp add: import_block_def example_defs number_def is_genesis_def resolver_defs
        and_then_def validate_block_def validate_gaslimit_def get_block_header_by_hash_def
        validate_word_def db_get_block_header_by_hash_def isinstance_def get_canonical_head_def
        persist_block_head create_header_from_parent_def)
  then have ok: "?r = (fst ?r, Inr (example_block 1 5000 example_block_mro))"
    by (metis prod.collapse)
  have conf: "vm_configuration (example_chain True)
                = Some [(0, example_vm ''A'' 1 True), (1000, example_vm ''B'' 2 True)]"
    by (simp add: example_chain_def)
  have contract: "\<forall>e \<in> set [(0 :: int, example_vm ''A'' 1 True), (1000, example_vm ''B'' 2 True)].
                    creates_child_header (snd e)"
    by (auto simp: creates_child_header_def example_vm_def)
  from import_block_success [OF ok conf contract] s show ?thesis
    by (simp add: block_hash_def number_def example_block_def example_header_def
        numeral_2_eq_2)
qed

text \<open>
  C10. When the block is an instance of the queue block class of the tip header's
  ruleset, \<^verbatim>\<open>import_block\<close> with validation requested does exactly what it does with
  validation switched off, whatever the structural check and the gas-limit window are:
  neither \<^verbatim>\<open>ensure_imported_block_unchanged\<close> nor \<^verbatim>\<open>validate_block\<close> runs. The
  block's class alone decides; the block need not be the chain's own queue block.
\<close>

theorem import_block_queue_class_skips_validation:
  assumes "get_vm c None = Inr (cls, h)" "isinstance b (queue_block_class cls)"
  shows "import_block u c now b True = import_block u' c now b False"
  using assms
  by (simp add: import_block_def Let_def get_vm_chaindb_update split: sum.splits prod.splits)

theorem import_block_queue_class_skips_validation_witness:
  "import_block example_utils (example_chain True) 2000
      (example_block 1 9000000 example_queue_block_mro) True
     = import_block example_utils (example_chain True) 2000
         (example_block 1 9000000 example_queue_block_mro) False \<and>
   queue_block (example_chain True) \<noteq> Some (example_block 1 9000000 example_queue_block_mro) \<and>
   snd (import_block example_utils (example_chain True) 2000
          (example_block 1 9000000 example_queue_block_mro) True)
     = Inr (example_block 1 9000000 example_queue_block_mro) \<and>
   snd (import_block example_utils (example_chain True) 2000
          (example_block 1 9000000 example_block_mro) True) = Inl ValidationError"
proof -
  have v: "get_vm (example_chain True) None
             = Inr (example_vm ''A'' 1 True, example_header 1 110 5000)"
    by (simp add: example_chain_def example_header_def resolver_defs)
  have i: "isinstance (example_block 1 9000000 example_queue_block_mro)
             (queue_block_class (example_vm ''A'' 1 True))"
    by (simp add: isinstance_def example_block_def example_vm_def example_queue_block_mro_def)
  have "snd (import_block example_utils (example_chain True) 2000
          (example_block 1 9000000 example_queue_block_mro) False)
     = Inr (example_block 1 9000000 example_queue_block_mro)"
    by (simp add: import_block_def example_defs number_def is_genesis_def resolver_defs
        isinstance_def get_canonical_head_def persist_block_head create_header_from_parent_def)
  moreover
  have "snd (import_block example_utils (example_chain True) 2000
          (example_block 1 9000000 example_block_mro) True) = Inl ValidationError"
    by (simp add: import_block_def example_defs number_def is_genesis_def resolver_defs
        and_then_def validate_block_def validate_gaslimit_def get_block_header_by_hash_def
        validate_word_def db_get_block_header_by_hash_def isinstance_def)
  moreover
  have "queue_block (example_chain True) \<noteq> Some (example_block 1 9000000 example_queue_block_mro)"
    by (simp add: example_chain_def)
  ultimately show ?thesis
    using import_block_queue_class_skips_validation [OF v i, of example_utils 2000 example_utils]
    by simp
qed

text \<open>
  C5 (amended). \<^verbatim>\<open>create_header_from_parent\<close> calls the resolver without a timestamp,
  so the ruleset is the one active at the clock's current time, whatever the parent
  header's timestamp is, and header construction is delegated to that ruleset: the
  result is what resolving at the explicit timestamp \<open>now\<close> and delegating gives, and
  at one clock time one and the same ruleset builds the header for every parent (or the
  resolution fails for every parent alike).
\<close>

theorem create_header_from_parent_resolves_by_clock:
  "create_header_from_parent c now p params =
     (case get_vm_class_for_block_timestamp (vm_configuration c) now' (Some now) of
        Inl e \<Rightarrow> Inl e
      | Inr cls \<Rightarrow> vm_create_header_from_parent cls p params) \<and>
   ((\<exists>cls :: vm_class. \<forall>q qparams. create_header_from_parent c now q qparams
                        = vm_create_header_from_parent cls q qparams) \<or>
    (\<exists>e. \<forall>q qparams. create_header_from_parent c now q qparams = Inl e))"
proof -
  have "create_header_from_parent c now p params =
     (case get_vm_class_for_block_timestamp (vm_configuration c) now' (Some now) of
        Inl e \<Rightarrow> Inl e
      | Inr cls \<Rightarrow> vm_create_header_from_parent cls p params)"
    by (simp add: create_header_from_parent_def resolver_default_clock [of _ now now'])
  moreover
  have "(\<exists>cls :: vm_class. \<forall>q qparams. create_header_from_parent c now q qparams
                        = vm_create_header_from_parent cls q qparams) \<or>
        (\<exists>e. \<forall>q qparams. create_header_from_parent c now q qparams = Inl e)"
  proof (cases "get_vm_class_for_block_timestamp (vm_configuration c) now None")
    case (Inl e)
    then have "\<forall>q qparams. create_header_from_parent c now q qparams = Inl e"
      by (simp add: create_header_from_parent_def)
    then have "\<exists>e. \<forall>q qparams. create_header_from_parent c now q qparams = Inl e"
      by (rule exI [where x = e])
    then show ?thesis by (rule disjI2)
  next
    case (Inr cls)
    then have "\<forall>q qparams. create_header_from_parent c now q qparams
                 = vm_create_header_from_parent cls q qparams"
      by (simp add: create_header_from_parent_def)
    then have "\<exists>cls :: vm_class. \<forall>q qparams. create_header_from_parent c now q qparams
                 = vm_create_header_from_parent cls q qparams"
      by (rule exI [where x = cls])
    then show ?thesis by (rule disjI1)
  qed
  ultimately show ?thesis by (rule conjI)
qed

theorem create_header_from_parent_resolves_by_clock_witness:
  "create_header_from_parent (example_chain True) 2000 (example_header 0 100 5000) []
     = vm_create_header_from_parent (example_vm ''B'' 2 True) (example_header 0 100 5000) [] \<and>
   create_header_from_parent (example_chain True) 500 (example_header 0 100 5000) []
     = vm_create_header_from_parent (example_vm ''A'' 1 True) (example_header 0 100 5000) []"
  using
    create_header_from_parent_resolves_by_clock [of "example_chain True" 2000
      "example_header 0 100 5000" "[]" 0, THEN conjunct1]
    create_header_from_parent_resolves_by_clock [of "example_chain True" 500
      "example_header 0 100 5000" "[]" 0, THEN conjunct1]
  by (simp add: example_chain_def get_vm_class_for_block_timestamp_def validate_uint256_def
      UINT_256_MAX_def)

theorem create_header_from_parent_resolves_by_clock_counterexample:
  "get_vm_class_for_block_timestamp (vm_configuration (example_chain True)) 2000
       (Some (timestamp (example_header 0 100 5000))) = Inr (example_vm ''A'' 1 True) \<and>
   get_vm_class_for_block_timestamp (vm_configuration (example_chain True)) 2000
       (Some (timestamp (example_header 1 1500 5000))) = Inr (example_vm ''B'' 2 True) \<and>
   create_header_from_parent (example_chain True) 2000 (example_header 0 100 5000) []
     = vm_create_header_from_parent (example_vm ''B'' 2 True) (example_header 0 100 5000) [] \<and>
   create_header_from_parent (example_chain True) 2000 (example_header 1 1500 5000) []
     = vm_create_header_from_parent (example_vm ''B'' 2 True) (example_header 1 1500 5000) [] \<and>
   create_header_from_parent (example_chain True) 2000 (example_header 0 100 5000) []
     \<noteq> vm_create_header_from_parent (example_vm ''A'' 1 True) (example_header 0 100 5000) []"
  by (simp add: create_header_from_parent_def example_chain_def example_header_def example_vm_def
      get_vm_class_for_block_timestamp_def validate_uint256_def UINT_256_MAX_def)

section \<open>Gas limit validation: properties\<close>

text \<open>
  C6. For a header whose parent header is found, \<^verbatim>\<open>validate_gaslimit\<close> takes the
  window \<open>(low, high)\<close> computed from the parent header and fails, with
  \<^verbatim>\<open>ValidationError\<close>, exactly when the header's gas limit is below \<open>low\<close> or above
  \<open>high\<close>; it returns exactly when the gas limit lies in the window, so a gas limit
  equal to either bound of a window is accepted.
\<close>

theorem validate_gaslimit_window:
  assumes "get_block_header_by_hash c (parent_hash h) = Inr parent"
  shows "(validate_gaslimit u c h = Inl ValidationError \<longleftrightarrow>
            gas_limit h < fst (compute_gas_limit_bounds u parent) \<or>
            gas_limit h > snd (compute_gas_limit_bounds u parent)) \<and>
         (validate_gaslimit u c h = Inr () \<longleftrightarrow>
            fst (compute_gas_limit_bounds u parent) \<le> gas_limit h \<and>
            gas_limit h \<le> snd (compute_gas_limit_bounds u parent)) \<and>
         (fst (compute_gas_limit_bounds u parent) \<le> snd (compute_gas_limit_bounds u parent) \<longrightarrow>
            (gas_limit h = fst (compute_gas_limit_bounds u parent) \<or>
             gas_limit h = snd (compute_gas_limit_bounds u parent)) \<longrightarrow>
            validate_gaslimit u c h = Inr ())"
  using assms by (auto simp: validate_gaslimit_def split: prod.splits)

theorem validate_gaslimit_window_witness:
  "validate_gaslimit example_utils (example_chain True) (example_header 1 120 4996) = Inr () \<and>
   validate_gaslimit example_utils (example_chain True) (example_header 1 120 5004) = Inr () \<and>
   validate_gaslimit example_utils (example_chain True) (example_header 1 120 4995)
     = Inl ValidationError \<and>
   validate_gaslimit example_utils (example_chain True) (example_header 1 120 5005)
     = Inl ValidationError"
proof -
  have p: "get_block_header_by_hash (example_chain True) (parent_hash (example_header 1 120 gl))
             = Inr (example_header 0 100 5000)" for gl
    by (simp add: get_block_header_by_hash_def validate_word_def db_get_block_header_by_hash_def
        example_chain_def example_db_def example_header_def h32_def)
  have w: "compute_gas_limit_bounds example_utils (example_header 0 100 5000) = (4996, 5004)"
    by (simp add: example_utils_def example_header_def)
  have g: "gas_limit (example_header 1 120 gl) = gl" for gl
    by (simp add: example_header_def)
  show ?thesis
    using validate_gaslimit_window [OF p [of 4996], of example_utils]
      validate_gaslimit_window [OF p [of 5004], of example_utils]
      validate_gaslimit_window [OF p [of 4995], of example_utils]
      validate_gaslimit_window [OF p [of 5005], of example_utils]
    by (simp add: w g)
qed

text \<open>
  C7 (amended). For a header whose parent hash is a 32-byte word under which no header
  is stored, \<^verbatim>\<open>validate_gaslimit\<close> fails with the lookup's own
  \<^verbatim>\<open>HeaderNotFound\<close>, which it lets through; it raises no
  \<^verbatim>\<open>ValidationError\<close> for the missing parent.
\<close>

theorem validate_gaslimit_parent_missing:
  assumes "length (parent_hash h) = 32" "db_headers (chaindb c) (parent_hash h) = None"
  shows "validate_gaslimit u c h = Inl HeaderNotFound"
  using assms
  by (simp add: validate_gaslimit_def get_block_header_by_hash_def validate_word_def
      db_get_block_header_by_hash_def)

theorem validate_gaslimit_parent_missing_witness:
  "validate_gaslimit example_utils (example_chain True) (example_header 5 120 5000)
     = Inl HeaderNotFound"
  using validate_gaslimit_parent_missing [of "example_header 5 120 5000" "example_chain True"
      example_utils]
  by (simp add: example_header_def h32_def example_chain_def example_db_def)

theorem validate_gaslimit_parent_missing_counterexample:
  "db_headers (chaindb (example_chain True)) (parent_hash (example_header 3 120 5000)) = None \<and>
   validate_gaslimit example_utils (example_chain True) (example_header 3 120 5000)
     \<noteq> Inl ValidationError"
  by (simp add: validate_gaslimit_def get_block_header_by_hash_def validate_word_def
      db_get_block_header_by_hash_def example_header_def h32_def example_chain_def example_db_def)

section \<open>Receivable discovery: properties\<close>

lemma resolve_receivable_iff:
  "resolve_receivable c keys = Inr txs \<longleftrightarrow>
   map (\<lambda>k. get_canonical_transaction c (transaction_hash k)) keys = map Inr txs"
proof (induction keys arbitrary: txs)
  case Nil
  then show ?case by auto
next
  case (Cons k keys)
  show ?case
  proof (cases "get_canonical_transaction c (transaction_hash k)")
    case (Inl e)
    then show ?thesis by (cases txs) auto
  next
    case (Inr tx)
    show ?thesis
    proof (cases "resolve_receivable c keys")
      case (Inl e)
      with Cons [of "tl txs"] Inr show ?thesis by (cases txs) auto
    next
      case r: (Inr rest)
      with Cons [of rest] Cons [of "tl txs"] Inr show ?thesis by (cases txs) auto
    qed
  qed
qed

text \<open>
  C8 (amended). When the ruleset of the tip header resolves and the receivable index
  holds no key for the address, \<^verbatim>\<open>get_receivable_transactions\<close> returns the pair
  \<^verbatim>\<open>(False, False)\<close>, not a pair of empty collections, and raises no error. When keys
  are pending and each of them resolves to a transaction, it returns the resolved
  transactions together with the keys, the i-th transaction being the one looked up
  under the i-th key's transaction hash.
\<close>

theorem get_receivable_transactions_result:
  assumes "get_vm c None = Inr (cls, h)"
  shows "(account_db_get_receivable_transactions cls (chaindb c) h addr = [] \<longrightarrow>
            get_receivable_transactions c addr = Inr FalseFalse) \<and>
         (account_db_get_receivable_transactions cls (chaindb c) h addr \<noteq> [] \<longrightarrow>
            (\<forall>txs. map (\<lambda>k. get_canonical_transaction c (transaction_hash k))
                      (account_db_get_receivable_transactions cls (chaindb c) h addr)
                    = map Inr txs \<longrightarrow>
                   get_receivable_transactions c addr =
                     Inr (Receivable txs
                            (account_db_get_receivable_transactions cls (chaindb c) h addr))))"
  using assms
  by (auto simp: get_receivable_transactions_def Let_def resolve_receivable_iff [symmetric])

theorem get_receivable_transactions_result_witness:
  "get_receivable_transactions (example_chain True) (replicate 20 7) = Inr FalseFalse \<and>
   get_receivable_transactions (example_chain True) (replicate 20 9)
     = Inr (Receivable [SendTx example_transaction] [example_key])"
proof -
  have v: "get_vm (example_chain True) None
             = Inr (example_vm ''A'' 1 True, example_header 1 110 5000)"
    by (simp add: example_chain_def example_header_def resolver_defs)
  have k7: "account_db_get_receivable_transactions (example_vm ''A'' 1 True)
              (chaindb (example_chain True)) (example_header 1 110 5000) (replicate 20 7) = []"
    by (simp add: example_vm_def)
  have k9: "account_db_get_receivable_transactions (example_vm ''A'' 1 True)
              (chaindb (example_chain True)) (example_header 1 110 5000) (replicate 20 9)
              = [example_key]"
    by (simp add: example_vm_def)
  have g: "get_canonical_transaction (example_chain True) (transaction_hash example_key)
             = Inr (SendTx example_transaction)"
    by (simp add: get_canonical_transaction_def db_get_transaction_index_def
        get_block_header_by_hash_def validate_word_def db_get_block_header_by_hash_def
        db_get_transaction_by_index_and_block_hash_def any_hash_def example_defs
        get_vm_class_for_block_timestamp_def validate_uint256_def UINT_256_MAX_def)
  show ?thesis
    using get_receivable_transactions_result [OF v, of "replicate 20 7"]
      get_receivable_transactions_result [OF v, of "replicate 20 9"]
    by (simp add: k7 k9 g)
qed

theorem get_receivable_transactions_result_counterexample:
  "account_db_get_receivable_transactions (example_vm ''A'' 1 True)
      (chaindb (example_chain True)) (chain_header (example_chain True)) (replicate 20 7) = [] \<and>
   get_receivable_transactions (example_chain True) (replicate 20 7) = Inr FalseFalse \<and>
   get_receivable_transactions (example_chain True) (replicate 20 7) \<noteq> Inr (Receivable [] [])"
  by (simp add: get_receivable_transactions_def example_chain_def example_header_def
      example_vm_def resolver_defs)

section \<open>Queue block staging: properties\<close>

lemma add_transaction_to_queue_block_staged:
  assumes "queue_block c = Some qb" "validate_is_queue_block qb = Inr ()"
    "contains_transaction qb tx"
  shows "add_transaction_to_queue_block c (SendTx tx) = (c, Inr ())"
  using assms by (simp add: add_transaction_to_queue_block_def)

lemma add_each_to_queue_block_staged:
  assumes "queue_block c = Some qb" "validate_is_queue_block qb = Inr ()"
    "contains_transaction qb tx"
  shows "add_each_to_queue_block c (replicate n (SendTx tx)) = (c, Inr ())"
  using assms by (induction n) (simp_all add: add_transaction_to_queue_block_staged)

lemma validate_is_queue_block_add_transaction:
  "validate_is_queue_block (add_transaction qb tx) = validate_is_queue_block qb"
  by (simp add: validate_is_queue_block_def add_transaction_def isinstance_def)

lemma contains_transaction_add_transaction:
  "contains_transaction (add_transaction qb tx) tx"
  by (simp add: contains_transaction_def add_transaction_def)

lemma copies_add_transaction:
  assumes "\<not> contains_transaction qb tx"
  shows "length (filter (\<lambda>t. tx_hash t = tx_hash tx) (transactions (add_transaction qb tx))) = 1"
proof -
  from assms have "filter (\<lambda>t. tx_hash t = tx_hash tx) (transactions qb) = []"
    by (force simp: contains_transaction_def filter_empty_conv image_iff)
  then show ?thesis by (simp add: add_transaction_def)
qed

lemma copies_contains:
  assumes "contains_transaction qb tx"
  shows "1 \<le> length (filter (\<lambda>t. tx_hash t = tx_hash tx) (transactions qb))"
proof -
  from assms obtain t where "t \<in> set (transactions qb)" "tx_hash t = tx_hash tx"
    by (auto simp: contains_transaction_def)
  then have "filter (\<lambda>t. tx_hash t = tx_hash tx) (transactions qb) \<noteq> []"
    by (auto simp: filter_empty_conv)
  then show ?thesis by (cases "filter (\<lambda>t. tx_hash t = tx_hash tx) (transactions qb)") auto
qed

text \<open>
  C4. Take a chain whose staged block (its queue block, or the tip block created on
  first use) is a queue block holding at most one send transaction with the hash of
  \<open>tx\<close>. Then \<^verbatim>\<open>add_transaction_to_queue_block(tx)\<close> returns without error, a second
  call returns without error and changes nothing, as does any further number of calls,
  and the queue block's send list then holds exactly one transaction with that hash.
\<close>

theorem add_transaction_to_queue_block_idempotent:
  assumes start: "(case queue_block c of None \<Rightarrow> get_block c | Some b \<Rightarrow> Inr b) = Inr qb"
    and isq: "validate_is_queue_block qb = Inr ()"
    and once: "length (filter (\<lambda>t. tx_hash t = tx_hash tx) (transactions qb)) \<le> 1"
  shows "\<exists>c1 qb1.
           add_transaction_to_queue_block c (SendTx tx) = (c1, Inr ()) \<and>
           add_transaction_to_queue_block c1 (SendTx tx) = (c1, Inr ()) \<and>
           (\<forall>n. add_transactions_to_queue_block c1 (TransactionList (replicate n (SendTx tx)))
                  = (c1, Inr ())) \<and>
           queue_block c1 = Some qb1 \<and>
           length (filter (\<lambda>t. tx_hash t = tx_hash tx) (transactions qb1)) = 1"
proof (cases "contains_transaction qb tx")
  case True
  define c1 where "c1 = c\<lparr>queue_block := Some qb\<rparr>"
  have first: "add_transaction_to_queue_block c (SendTx tx) = (c1, Inr ())"
    using start isq True by (simp add: add_transaction_to_queue_block_def c1_def)
  have q: "queue_block c1 = Some qb" by (simp add: c1_def)
  have "length (filter (\<lambda>t. tx_hash t = tx_hash tx) (transactions qb)) = 1"
    using copies_contains [OF True] once by simp
  with first q isq True show ?thesis
    by (auto simp: add_transactions_to_queue_block_def add_transaction_to_queue_block_staged
        add_each_to_queue_block_staged)
next
  case False
  define c1 where "c1 = c\<lparr>queue_block := Some (add_transaction qb tx)\<rparr>"
  have first: "add_transaction_to_queue_block c (SendTx tx) = (c1, Inr ())"
    using start isq False by (simp add: add_transaction_to_queue_block_def c1_def)
  have q: "queue_block c1 = Some (add_transaction qb tx)" by (simp add: c1_def)
  have v: "validate_is_queue_block (add_transaction qb tx) = Inr ()"
    using isq by (simp add: validate_is_queue_block_add_transaction)
  from first q v contains_transaction_add_transaction [of qb tx] copies_add_transaction [OF False]
  show ?thesis
    by (auto simp: add_transactions_to_queue_block_def add_transaction_to_queue_block_staged
        add_each_to_queue_block_staged)
qed

theorem add_transaction_to_queue_block_idempotent_witness:
  "snd (add_transaction_to_queue_block (example_chain True) (SendTx example_transaction))
     = Inr () \<and>
   add_transaction_to_queue_block
     (fst (add_transaction_to_queue_block (example_chain True) (SendTx example_transaction)))
     (SendTx example_transaction)
     = (fst (add_transaction_to_queue_block (example_chain True) (SendTx example_transaction)),
        Inr ()) \<and>
   add_transactions_to_queue_block
     (fst (add_transaction_to_queue_block (example_chain True) (SendTx example_transaction)))
     (TransactionList [SendTx example_transaction, SendTx example_transaction,
                       SendTx example_transaction])
     = (fst (add_transaction_to_queue_block (example_chain True) (SendTx example_transaction)),
        Inr ()) \<and>
   map_option transactions
     (queue_block
        (fst (add_transaction_to_queue_block (example_chain True) (SendTx example_transaction))))
     = Some [example_transaction]"
proof -
  let ?qb = "\<lparr>header = example_header 1 110 5000, transactions = [], receive_transactions = [],
              block_mro = example_queue_block_mro\<rparr>"
  have start: "(case queue_block (example_chain True) of
                  None \<Rightarrow> get_block (example_chain True) | Some b \<Rightarrow> Inr b) = Inr ?qb"
    by (simp add: get_block_def example_chain_def example_header_def example_vm_def resolver_defs)
  have isq: "validate_is_queue_block ?qb = Inr ()"
    by (simp add: validate_is_queue_block_def isinstance_def example_queue_block_mro_def)
  have once: "length (filter (\<lambda>t. tx_hash t = tx_hash example_transaction) (transactions ?qb)) \<le> 1"
    by simp
  from add_transaction_to_queue_block_idempotent [OF start isq once] obtain c1 qb1 where
    first: "add_transaction_to_queue_block (example_chain True) (SendTx example_transaction)
              = (c1, Inr ())"
    and second: "add_transaction_to_queue_block c1 (SendTx example_transaction) = (c1, Inr ())"
    and more: "\<forall>n. add_transactions_to_queue_block c1
                      (TransactionList (replicate n (SendTx example_transaction))) = (c1, Inr ())"
    by blast
  have three: "replicate 3 (SendTx example_transaction)
                 = [SendTx example_transaction, SendTx example_transaction,
                    SendTx example_transaction]"
    by (simp add: numeral_3_eq_3)
  have staged: "map_option transactions
     (queue_block
        (fst (add_transaction_to_queue_block (example_chain True) (SendTx example_transaction))))
     = Some [example_transaction]"
    by (simp add: add_transaction_to_queue_block_def start isq contains_transaction_def
        add_transaction_def)
  from first second more [rule_format, of 3] staged show ?thesis
    by (simp add: three)
qed

section \<open>Receive transaction validation: properties\<close>










end
